theory Spec2Isabelle
  imports Complex_Main "HOL-Library.Word" "HOL-Library.Stream" "HOL-Library.AList" "HOL-Library.Multiset"
begin

section \<open>Python values, documents and identifiers\<close>

text \<open>
  The handlers of \<^verbatim>\<open>main.py\<close> work on two kinds of data: pydantic models (classes with
  typed fields, modelled as records) and the dictionaries that the document store returns
  and receives (modelled as association lists from field names to Python values, in
  insertion order, as a Python \<^verbatim>\<open>dict\<close> keeps them).

  A \<^verbatim>\<open>bson.ObjectId\<close> holds a byte string; built from a \<^verbatim>\<open>str\<close> it accepts exactly the
  strings of length 24 that \<^verbatim>\<open>bytes.fromhex\<close> accepts, and \<^verbatim>\<open>str()\<close> of it is the
  lower-case hexadecimal form of its bytes.
\<close>

datatype ObjectId = ObjectId (binary: "8 word list")

datatype pyval =
    PNone
  | PBool bool
  | PInt int
  | PFloat real
  | PStr string
  | POid ObjectId
  | PList "pyval list"
  | PDict "(string \<times> pyval) list"

type_synonym pydict = "(string \<times> pyval) list"

text \<open>Truth value of a Python object, as \<^verbatim>\<open>if x\<close>, \<^verbatim>\<open>not x\<close> and \<^verbatim>\<open>x or y\<close> test it.\<close>

fun truthy :: "pyval \<Rightarrow> bool" where
  "truthy PNone = False"
| "truthy (PBool b) = b"
| "truthy (PInt i) = (i \<noteq> 0)"
| "truthy (PFloat r) = (r \<noteq> 0)"
| "truthy (PStr s) = (s \<noteq> [])"
| "truthy (POid oid) = True"
| "truthy (PList xs) = (xs \<noteq> [])"
| "truthy (PDict kvs) = (kvs \<noteq> [])"

text \<open>An \<^verbatim>\<open>Optional[str]\<close> field of a model, as a Python value.\<close>

definition opt_str :: "string option \<Rightarrow> pyval" where
  "opt_str x = (case x of None \<Rightarrow> PNone | Some s \<Rightarrow> PStr s)"

subsection \<open>Hexadecimal strings\<close>

definition isspace :: "char \<Rightarrow> bool" where
  "isspace c = (of_char c \<in> {9, 10, 11, 12, 13, 32 :: nat})"

definition hexval :: "char \<Rightarrow> nat option" where
  "hexval c =
     (let n = (of_char c :: nat) in
      if 48 \<le> n \<and> n \<le> 57 then Some (n - 48)
      else if 97 \<le> n \<and> n \<le> 102 then Some (n - 87)
      else if 65 \<le> n \<and> n \<le> 70 then Some (n - 55)
      else None)"

text \<open>
  \<^verbatim>\<open>bytes.fromhex\<close>: ASCII whitespace before a byte is skipped, then two hexadecimal
  digits are read; anything else raises \<^verbatim>\<open>ValueError\<close> (the value \<open>None\<close>).
\<close>

fun fromhex :: "string \<Rightarrow> 8 word list option" where
  "fromhex [] = Some []"
| "fromhex [c] = (if isspace c then Some [] else None)"
| "fromhex (c # d # ds) =
     (if isspace c then fromhex (d # ds)
      else (case (hexval c, hexval d) of
              (Some hi, Some lo) \<Rightarrow>
                 map_option ((#) (word_of_nat (16 * hi + lo))) (fromhex ds)
            | _ \<Rightarrow> None))"

definition hexdigit :: "nat \<Rightarrow> char" where
  "hexdigit n = ''0123456789abcdef'' ! n"

text \<open>\<^verbatim>\<open>binascii.hexlify\<close>: two lower-case digits per byte.\<close>

fun hexlify :: "8 word list \<Rightarrow> string" where
  "hexlify [] = []"
| "hexlify (b # bs) = hexdigit (unat b div 16) # hexdigit (unat b mod 16) # hexlify bs"

text \<open>\<^verbatim>\<open>ObjectId(s)\<close> for a \<^verbatim>\<open>str\<close>: \<open>None\<close> stands for the \<^verbatim>\<open>InvalidId\<close> it raises.\<close>

definition ObjectId_of_str :: "string \<Rightarrow> ObjectId option" where
  "ObjectId_of_str s = (if length s = 24 then map_option ObjectId (fromhex s) else None)"

text \<open>\<^verbatim>\<open>str(oid)\<close>.\<close>

definition str_of_ObjectId :: "ObjectId \<Rightarrow> string" where
  "str_of_ObjectId oid = hexlify (binary oid)"

text \<open>
  A freshly generated identifier is twelve bytes; the generator's 96-bit value is laid
  out big-endian.
\<close>

definition oid_bytes :: "96 word \<Rightarrow> 8 word list" where
  "oid_bytes w = map (\<lambda>i. ucast (drop_bit (8 * (11 - i)) w)) [0..<12]"

subsection \<open>Stored documents\<close>

text \<open>
  Every document of a collection carries the \<^verbatim>\<open>_id\<close> the store gave it, an
  \<^verbatim>\<open>ObjectId\<close>; its other fields are a dictionary.
\<close>

record document =
  doc_id :: ObjectId
  doc_fields :: pydict

text \<open>\<^verbatim>\<open>key in doc\<close> and \<^verbatim>\<open>doc[key]\<close>, as a lookup.\<close>

definition doc_lookup :: "document \<Rightarrow> string \<Rightarrow> pyval option" where
  "doc_lookup d k = (if k = ''_id'' then Some (POid (doc_id d)) else map_of (doc_fields d) k)"

text \<open>\<^verbatim>\<open>doc.get(key, default)\<close>; \<^verbatim>\<open>doc.get(key)\<close> is \<open>doc_get d key PNone\<close>.\<close>

definition doc_get :: "document \<Rightarrow> string \<Rightarrow> pyval \<Rightarrow> pyval" where
  "doc_get d k dflt = (case doc_lookup d k of None \<Rightarrow> dflt | Some v \<Rightarrow> v)"


section \<open>Schemas and request models\<close>

text \<open>
  The pydantic classes of \<^verbatim>\<open>schemas.py\<close> and \<^verbatim>\<open>main.py\<close>. A field declared
  \<^verbatim>\<open>Optional[...]\<close> is an option. Where two classes declare a field of the same name,
  the fields of the schema classes \<^verbatim>\<open>User\<close> and \<^verbatim>\<open>Contact\<close> carry the class name as a
  prefix; the request classes keep the source's names.
\<close>

record Location =
  lat :: real
  lng :: real
  accuracy :: "real option"

record User =
  user_name :: string
  user_phone :: string
  user_email :: "string option"
  user_default_message :: string
  user_pin :: "string option"

record Contact =
  contact_user_id :: string
  contact_name :: string
  contact_phone :: "string option"
  contact_email :: "string option"

record RegisterUserRequest = User +
  contacts :: "Contact list option"

record CreateAlertRequest =
  user_id :: string
  message :: "string option"
  location :: "Location option"

record CancelAlertRequest =
  alert_id :: string
  pin :: "string option"

definition default_sos_message :: string where
  "default_sos_message =
     ''I need help. This is an emergency. Please check my location and contact me immediately.''"

text \<open>\<^verbatim>\<open>model_dump()\<close> of each class: its fields in declaration order.\<close>

definition Location_model_dump :: "Location \<Rightarrow> pydict" where
  "Location_model_dump l =
     [(''lat'', PFloat (lat l)), (''lng'', PFloat (lng l)),
      (''accuracy'', (case accuracy l of None \<Rightarrow> PNone | Some a \<Rightarrow> PFloat a))]"

definition Contact_model_dump :: "Contact \<Rightarrow> pydict" where
  "Contact_model_dump c =
     [(''user_id'', PStr (contact_user_id c)), (''name'', PStr (contact_name c)),
      (''phone'', opt_str (contact_phone c)), (''email'', opt_str (contact_email c))]"

definition RegisterUserRequest_model_dump :: "RegisterUserRequest \<Rightarrow> pydict" where
  "RegisterUserRequest_model_dump p =
     [(''name'', PStr (user_name p)), (''phone'', PStr (user_phone p)),
      (''email'', opt_str (user_email p)),
      (''default_message'', PStr (user_default_message p)),
      (''pin'', opt_str (user_pin p)),
      (''contacts'', (case contacts p of None \<Rightarrow> PNone
                      | Some cs \<Rightarrow> PList (map (\<lambda>c. PDict (Contact_model_dump c)) cs)))]"

section \<open>Process state and the document store adapter\<close>

text \<open>
  The handlers share the global \<^verbatim>\<open>db\<close> (\<^verbatim>\<open>None\<close> when no store is configured), a mapping
  from collection names to their documents, and the process's \<^verbatim>\<open>ObjectId\<close> generator,
  here the stream of the values it will produce. \<open>calls\<close> records every operation issued
  to the store, oldest first.
\<close>

datatype store_call = Find string | InsertOne string | UpdateOne string

record state =
  db :: "(string \<Rightarrow> document list) option"
  oids :: "96 word stream"
  calls :: "store_call list"

datatype exn =
    HTTPException (status_code: nat) (detail: string)
  | StoreUnavailable
  | RequestValidationError

type_synonym 'a action = "state \<Rightarrow> (exn + 'a) \<times> state"

text \<open>Sequencing: an exception of the first action ends the handler.\<close>

definition then_do :: "'a action \<Rightarrow> ('a \<Rightarrow> 'b action) \<Rightarrow> 'b action" where
  "then_do m f s = (case m s of (Inl e, s') \<Rightarrow> (Inl e, s') | (Inr x, s') \<Rightarrow> f x s')"

definition succeed :: "'a \<Rightarrow> 'a action" where
  "succeed x s = (Inr x, s)"

definition raise :: "exn \<Rightarrow> 'a action" where
  "raise e s = (Inl e, s)"

text \<open>A document matches a filter when each key of the filter holds exactly that value.\<close>

definition matches :: "pydict \<Rightarrow> document \<Rightarrow> bool" where
  "matches flt d = list_all (\<lambda>(k, v). doc_lookup d k = Some v) flt"

text \<open>
  Modelled from the spec: \<^verbatim>\<open>database.create_document\<close>, whose module is not among the
  sources. It persists the record into the named collection and returns a newly generated
  identifier in string form; with no store it fails.
\<close>

definition create_document :: "string \<Rightarrow> pydict \<Rightarrow> string action" where
  "create_document collection_name data s =
     (case db s of
        None \<Rightarrow> (Inl StoreUnavailable, s)
      | Some d \<Rightarrow>
          (let oid = ObjectId (oid_bytes (shd (oids s)))
           in (Inr (str_of_ObjectId oid),
               s\<lparr>db := Some (d(collection_name :=
                         d collection_name @ [\<lparr>doc_id = oid, doc_fields = data\<rparr>])),
                 oids := stl (oids s),
                 calls := calls s @ [InsertOne collection_name]\<rparr>)))"

text \<open>
  Modelled from the spec: \<^verbatim>\<open>database.get_documents\<close>, whose module is not among the
  sources. It returns all records of the collection whose fields equal the filter's
  values; with no store it fails.
\<close>

definition get_documents :: "string \<Rightarrow> pydict \<Rightarrow> document list action" where
  "get_documents collection_name filter_dict s =
     (case db s of
        None \<Rightarrow> (Inl StoreUnavailable, s)
      | Some d \<Rightarrow>
          (Inr (filter (matches filter_dict) (d collection_name)),
           s\<lparr>calls := calls s @ [Find collection_name]\<rparr>))"

text \<open>
  pymongo's \<^verbatim>\<open>update_one(filter, {"$set": fields})\<close>: the first matching document gets
  the fields set, all others stay.
\<close>

definition set_fields :: "pydict \<Rightarrow> document \<Rightarrow> document" where
  "set_fields upd d = d\<lparr>doc_fields := fold (\<lambda>(k, v). AList.update k v) upd (doc_fields d)\<rparr>"

fun update_one :: "pydict \<Rightarrow> pydict \<Rightarrow> document list \<Rightarrow> document list" where
  "update_one flt upd [] = []"
| "update_one flt upd (d # ds) =
     (if matches flt d then set_fields upd d # ds else d # update_one flt upd ds)"

section \<open>The handlers of main.py\<close>

text \<open>
  \<^verbatim>\<open>ObjectId(x)\<close> generates a new identifier for \<^verbatim>\<open>None\<close> (\<open>fresh\<close> is the
  generator's next value), parses a \<^verbatim>\<open>str\<close>, copies an \<^verbatim>\<open>ObjectId\<close> and raises for any
  other value (\<open>None\<close>).
\<close>

definition ObjectId_init :: "pyval \<Rightarrow> 96 word \<Rightarrow> ObjectId option" where
  "ObjectId_init x fresh =
     (case x of
        PNone \<Rightarrow> Some (ObjectId (oid_bytes fresh))
      | PStr st \<Rightarrow> ObjectId_of_str st
      | POid oid \<Rightarrow> Some oid
      | _ \<Rightarrow> None)"

text \<open>\<^verbatim>\<open>ensure_objectid\<close> turns every exception of the constructor into the 400 response.\<close>

definition ensure_objectid :: "pyval \<Rightarrow> ObjectId action" where
  "ensure_objectid id_str s =
     (case ObjectId_init id_str (shd (oids s)) of
        None \<Rightarrow> (Inl (HTTPException 400 ''Invalid ID format''), s)
      | Some oid \<Rightarrow> (Inr oid, if id_str = PNone then s\<lparr>oids := stl (oids s)\<rparr> else s))"

text \<open>The loop of \<^verbatim>\<open>register_user\<close> over the contacts.\<close>

fun insert_contacts :: "string \<Rightarrow> Contact list \<Rightarrow> unit action" where
  "insert_contacts uid [] s = (Inr (), s)"
| "insert_contacts uid (c # cs) s =
     (case create_document ''contact''
             (AList.update ''user_id'' (PStr uid) (Contact_model_dump c)) s of
        (Inl e, s') \<Rightarrow> (Inl e, s')
      | (Inr _, s') \<Rightarrow> insert_contacts uid cs s')"

definition register_user :: "RegisterUserRequest \<Rightarrow> pyval action" where
  "register_user payload =
     then_do (create_document ''user'' (RegisterUserRequest_model_dump payload)) (\<lambda>uid.
     then_do (case contacts payload of
                None \<Rightarrow> succeed ()
              | Some [] \<Rightarrow> succeed ()
              | Some cs \<Rightarrow> insert_contacts uid cs) (\<lambda>_.
     succeed (PDict [(''user_id'', PStr uid)])))"

text \<open>
  The listing handlers replace each \<^verbatim>\<open>_id\<close> by its string form. A document that comes
  from the store has an \<^verbatim>\<open>_id\<close>, so the branch for a missing one is not taken.
\<close>

definition id_to_str :: "document \<Rightarrow> pyval" where
  "id_to_str d = PDict ((''_id'', PStr (str_of_ObjectId (doc_id d))) # doc_fields d)"

definition list_contacts :: "string \<Rightarrow> pyval action" where
  "list_contacts uid =
     then_do (ensure_objectid (PStr uid)) (\<lambda>_.
     then_do (get_documents ''contact'' [(''user_id'', PStr uid)]) (\<lambda>contacts.
     succeed (PList (map id_to_str contacts))))"


text \<open>
  The local variables \<^verbatim>\<open>message\<close> and \<^verbatim>\<open>alert_data\<close> of \<^verbatim>\<open>create_alert\<close>:
  \<^verbatim>\<open>payload.message or user.get("default_message", ...)\<close> takes the request's message
  unless it is \<^verbatim>\<open>None\<close> or empty.
\<close>

definition alert_message :: "CreateAlertRequest \<Rightarrow> document \<Rightarrow> pyval" where
  "alert_message payload user =
     (if truthy (opt_str (message payload)) then opt_str (message payload)
      else doc_get user ''default_message'' (PStr default_sos_message))"

definition alert_data :: "CreateAlertRequest \<Rightarrow> document \<Rightarrow> pydict" where
  "alert_data payload user =
     [(''user_id'', PStr (user_id payload)),
      (''message'', alert_message payload user),
      (''location'', (case location payload of
                        Some l \<Rightarrow> PDict (Location_model_dump l)
                      | None \<Rightarrow> PNone)),
      (''status'', PStr ''active''),
      (''share_url'', PNone)]"

definition create_alert :: "CreateAlertRequest \<Rightarrow> pyval action" where
  "create_alert payload =
     then_do (ensure_objectid (PStr (user_id payload))) (\<lambda>_.
     then_do (ensure_objectid (PStr (user_id payload))) (\<lambda>oid.
     then_do (get_documents ''user'' [(''_id'', POid oid)]) (\<lambda>users.
       (case users of
          [] \<Rightarrow> raise (HTTPException 404 ''User not found'')
        | user # _ \<Rightarrow>
            then_do (create_document ''alert'' (alert_data payload user)) (\<lambda>aid.
            succeed (PDict [(''alert_id'', PStr aid), (''status'', PStr ''active'')]))))))"

text \<open>
  \<^verbatim>\<open>not payload.pin or payload.pin != user.get("pin")\<close>, the test under which a
  PIN-protected user's alert is not cancelled.
\<close>

definition pin_rejected :: "string option \<Rightarrow> pyval \<Rightarrow> bool" where
  "pin_rejected p stored = (case p of None \<Rightarrow> True | Some x \<Rightarrow> x = [] \<or> PStr x \<noteq> stored)"

definition cancel_alert :: "CancelAlertRequest \<Rightarrow> pyval action" where
  "cancel_alert payload =
     then_do (ensure_objectid (PStr (alert_id payload))) (\<lambda>_.
     then_do (ensure_objectid (PStr (alert_id payload))) (\<lambda>aid.
     then_do (get_documents ''alert'' [(''_id'', POid aid)]) (\<lambda>alerts.
       (case alerts of
          [] \<Rightarrow> raise (HTTPException 404 ''Alert not found'')
        | alert # _ \<Rightarrow>
     then_do (ensure_objectid (doc_get alert ''user_id'' PNone)) (\<lambda>uoid.
     then_do (get_documents ''user'' [(''_id'', POid uoid)]) (\<lambda>users.
       if (case users of
             [] \<Rightarrow> False
           | user # _ \<Rightarrow> truthy (doc_get user ''pin'' PNone)
                         \<and> pin_rejected (pin payload) (doc_get user ''pin'' PNone))
       then raise (HTTPException 403 ''Invalid PIN'')
       else (\<lambda>s.
         (case db s of
            None \<Rightarrow> (Inl (HTTPException 500 ''Database not available''), s)
          | Some d \<Rightarrow>
              then_do (ensure_objectid (PStr (alert_id payload))) (\<lambda>aid'.
              then_do (\<lambda>s'. (Inr (),
                         s'\<lparr>db := Some (d(''alert'' :=
                                update_one [(''_id'', POid aid')]
                                  [(''status'', PStr ''canceled'')] (d ''alert''))),
                            calls := calls s' @ [UpdateOne ''alert'']\<rparr>)) (\<lambda>_.
              succeed (PDict [(''alert_id'', PStr (alert_id payload)),
                              (''status'', PStr ''canceled'')]))) s))))))))"


section \<open>Validation of the registration body\<close>

text \<open>
  FastAPI validates the JSON body of \<^verbatim>\<open>POST /api/register\<close> against
  \<^verbatim>\<open>RegisterUserRequest\<close> before it calls the handler, and answers with a validation
  error when a field is missing or of the wrong type. The field declarations of
  \<^verbatim>\<open>schemas.py\<close> decide each case: \<^verbatim>\<open>Field(...)\<close> is required, \<^verbatim>\<open>Optional[str]\<close> with
  default \<^verbatim>\<open>None\<close> accepts a missing field, \<^verbatim>\<open>null\<close> and any string, and a \<^verbatim>\<open>str\<close> with
  a default accepts a missing field and any string. No declaration of these two classes
  carries a length or pattern constraint. The syntax check of \<^verbatim>\<open>EmailStr\<close> belongs to a
  library and is the parameter \<open>ev\<close>: it returns the normalised address, or \<open>None\<close>.
\<close>

definition str_required :: "pydict \<Rightarrow> string \<Rightarrow> string option" where
  "str_required body k = (case map_of body k of Some (PStr x) \<Rightarrow> Some x | _ \<Rightarrow> None)"

definition str_default :: "pydict \<Rightarrow> string \<Rightarrow> string \<Rightarrow> string option" where
  "str_default body k dflt =
     (case map_of body k of None \<Rightarrow> Some dflt | Some (PStr x) \<Rightarrow> Some x | _ \<Rightarrow> None)"

definition str_optional :: "pydict \<Rightarrow> string \<Rightarrow> string option option" where
  "str_optional body k =
     (case map_of body k of
        None \<Rightarrow> Some None
      | Some PNone \<Rightarrow> Some None
      | Some (PStr x) \<Rightarrow> Some (Some x)
      | _ \<Rightarrow> None)"

definition email_optional :: "(string \<Rightarrow> string option) \<Rightarrow> pydict \<Rightarrow> string \<Rightarrow> string option option" where
  "email_optional ev body k =
     (case map_of body k of
        None \<Rightarrow> Some None
      | Some PNone \<Rightarrow> Some None
      | Some (PStr x) \<Rightarrow> map_option Some (ev x)
      | _ \<Rightarrow> None)"

definition Contact_validate :: "(string \<Rightarrow> string option) \<Rightarrow> pyval \<Rightarrow> Contact option" where
  "Contact_validate ev v =
     (case v of
        PDict body \<Rightarrow>
          Option.bind (str_required body ''user_id'') (\<lambda>u.
          Option.bind (str_required body ''name'') (\<lambda>n.
          Option.bind (str_optional body ''phone'') (\<lambda>ph.
          Option.bind (email_optional ev body ''email'') (\<lambda>em.
          Some \<lparr>contact_user_id = u, contact_name = n,
                 contact_phone = ph, contact_email = em\<rparr>))))
      | _ \<Rightarrow> None)"

definition contacts_optional :: "(string \<Rightarrow> string option) \<Rightarrow> pydict \<Rightarrow> Contact list option option" where
  "contacts_optional ev body =
     (case map_of body ''contacts'' of
        None \<Rightarrow> Some None
      | Some PNone \<Rightarrow> Some None
      | Some (PList xs) \<Rightarrow> map_option Some (those (map (Contact_validate ev) xs))
      | _ \<Rightarrow> None)"

definition RegisterUserRequest_validate ::
    "(string \<Rightarrow> string option) \<Rightarrow> pyval \<Rightarrow> RegisterUserRequest option" where
  "RegisterUserRequest_validate ev v =
     (case v of
        PDict body \<Rightarrow>
          Option.bind (str_required body ''name'') (\<lambda>n.
          Option.bind (str_required body ''phone'') (\<lambda>ph.
          Option.bind (email_optional ev body ''email'') (\<lambda>em.
          Option.bind (str_default body ''default_message'' default_sos_message) (\<lambda>dm.
          Option.bind (str_optional body ''pin'') (\<lambda>pn.
          Option.bind (contacts_optional ev body) (\<lambda>cs.
          Some \<lparr>user_name = n, user_phone = ph, user_email = em,
                 user_default_message = dm, user_pin = pn, contacts = cs\<rparr>))))))
      | _ \<Rightarrow> None)"

text \<open>The route \<^verbatim>\<open>POST /api/register\<close>: validation, then the handler.\<close>

definition api_register :: "(string \<Rightarrow> string option) \<Rightarrow> pyval \<Rightarrow> pyval action" where
  "api_register ev body =
     (case RegisterUserRequest_validate ev body of
        None \<Rightarrow> raise RequestValidationError
      | Some payload \<Rightarrow> register_user payload)"

section \<open>Notions used in the statements\<close>

text \<open>The contacts a registration submits: none when the field is absent.\<close>

definition submitted :: "RegisterUserRequest \<Rightarrow> Contact list" where
  "submitted p = (case contacts p of None \<Rightarrow> [] | Some cs \<Rightarrow> cs)"

text \<open>
  The dictionary \<^verbatim>\<open>{**c.model_dump(), "user_id": user_id}\<close> that \<^verbatim>\<open>register_user\<close>
  hands to the store for a contact.
\<close>

definition contact_record :: "string \<Rightarrow> Contact \<Rightarrow> pydict" where
  "contact_record uid c = AList.update ''user_id'' (PStr uid) (Contact_model_dump c)"

text \<open>The documents the loop inserts, given the identifiers the generator produces.\<close>

definition contact_docs :: "string \<Rightarrow> Contact list \<Rightarrow> 96 word list \<Rightarrow> document list" where
  "contact_docs uid cs ws =
     map2 (\<lambda>c w. \<lparr>doc_id = ObjectId (oid_bytes w),
                   doc_fields = AList.update ''user_id'' (PStr uid) (Contact_model_dump c)\<rparr>) cs ws"

text \<open>A listed record without the \<^verbatim>\<open>_id\<close> that the store added.\<close>

definition without_id :: "pyval \<Rightarrow> pyval" where
  "without_id v = (case v of PDict kvs \<Rightarrow> PDict (AList.delete ''_id'' kvs) | _ \<Rightarrow> v)"

text \<open>The response of a successful cancellation.\<close>

definition canceled_response :: "CancelAlertRequest \<Rightarrow> pyval" where
  "canceled_response payload =
     PDict [(''alert_id'', PStr (alert_id payload)), (''status'', PStr ''canceled'')]"

section \<open>An example store\<close>

text \<open>
  Two users, the first registered with the PIN 1234, the second a bare record without
  \<^verbatim>\<open>default_message\<close> and \<^verbatim>\<open>pin\<close>; three alerts, one of each user and one whose owner is
  not in the store.
\<close>

definition user_A :: document where
  "user_A =
     \<lparr>doc_id = ObjectId [0, 0, 0, 0, 0, 0, 0, 0, 0, 0, 0, 1],
      doc_fields = [(''name'', PStr ''A''), (''phone'', PStr ''555''), (''email'', PNone),
                    (''default_message'', PStr default_sos_message),
                    (''pin'', PStr ''1234''), (''contacts'', PNone)]\<rparr>"

definition user_B :: document where
  "user_B =
     \<lparr>doc_id = ObjectId [0, 0, 0, 0, 0, 0, 0, 0, 0, 0, 0, 2],
      doc_fields = [(''name'', PStr ''B''), (''phone'', PStr ''556'')]\<rparr>"

definition alert_of_A :: document where
  "alert_of_A =
     \<lparr>doc_id = ObjectId [0, 0, 0, 0, 0, 0, 0, 0, 0, 0, 0, 10],
      doc_fields = [(''user_id'', PStr ''000000000000000000000001''),
                    (''message'', PStr ''help''), (''location'', PNone),
                    (''status'', PStr ''active''), (''share_url'', PNone)]\<rparr>"

definition alert_of_B :: document where
  "alert_of_B =
     \<lparr>doc_id = ObjectId [0, 0, 0, 0, 0, 0, 0, 0, 0, 0, 0, 11],
      doc_fields = [(''user_id'', PStr ''000000000000000000000002''),
                    (''message'', PStr ''help''), (''location'', PNone),
                    (''status'', PStr ''resolved''), (''share_url'', PNone)]\<rparr>"

definition orphan_alert :: document where
  "orphan_alert =
     \<lparr>doc_id = ObjectId [0, 0, 0, 0, 0, 0, 0, 0, 0, 0, 0, 12],
      doc_fields = [(''user_id'', PStr ''000000000000000000000009''),
                    (''message'', PStr ''help''), (''location'', PNone),
                    (''status'', PStr ''active''), (''share_url'', PNone)]\<rparr>"

definition example_db :: "string \<Rightarrow> document list" where
  "example_db =
     (\<lambda>_. [])(''user'' := [user_A, user_B],
                ''alert'' := [alert_of_A, alert_of_B, orphan_alert])"

definition example_state :: state where
  "example_state = \<lparr>db = Some example_db, oids = siterate (\<lambda>w. w + 1) 16, calls = []\<rparr>"

definition example_contacts :: "Contact list" where
  "example_contacts =
     [\<lparr>contact_user_id = ''me'', contact_name = ''B'',
       contact_phone = Some ''777'', contact_email = None\<rparr>,
      \<lparr>contact_user_id = ''me'', contact_name = ''C'',
       contact_phone = None, contact_email = None\<rparr>]"

definition example_registration :: RegisterUserRequest where
  "example_registration =
     \<lparr>user_name = ''A'', user_phone = ''555'', user_email = None,
      user_default_message = default_sos_message, user_pin = Some ''1234'',
      contacts = Some example_contacts\<rparr>"

text \<open>An email check that accepts every address; no example carries one.\<close>

definition any_email :: "string \<Rightarrow> string option" where
  "any_email x = Some x"

text \<open>A registration body whose contacts carry a \<^verbatim>\<open>user_id\<close> of their own.\<close>

definition example_body :: pyval where
  "example_body =
     PDict [(''name'', PStr ''A''), (''phone'', PStr ''555''), (''pin'', PStr ''1234''),
            (''contacts'', PList [PDict [(''user_id'', PStr ''me''), (''name'', PStr ''B''),
                                         (''phone'', PStr ''777'')],
                                  PDict [(''user_id'', PStr ''me''), (''name'', PStr ''C'')]])]"




section \<open>Running the handlers\<close>

text \<open>What each step of a handler returns, under the condition that selects its branch.\<close>

lemma ensure_objectid_PStr:
  "ensure_objectid (PStr x) s =
     (case ObjectId_of_str x of
        None \<Rightarrow> (Inl (HTTPException 400 ''Invalid ID format''), s)
      | Some oid \<Rightarrow> (Inr oid, s))"
  by (simp add: ensure_objectid_def ObjectId_init_def split: option.splits)

lemma get_documents_Some:
  "db s = Some d \<Longrightarrow> get_documents c flt s =
     (Inr (filter (matches flt) (d c)), s\<lparr>calls := calls s @ [Find c]\<rparr>)"
  by (simp add: get_documents_def)

lemma get_documents_None:
  "db s = None \<Longrightarrow> get_documents c flt s = (Inl StoreUnavailable, s)"
  by (simp add: get_documents_def)

lemma ensure_objectid_Some:
  "ObjectId_init v (shd (oids s)) = Some oid \<Longrightarrow>
   ensure_objectid v s = (Inr oid, if v = PNone then s\<lparr>oids := stl (oids s)\<rparr> else s)"
  by (simp add: ensure_objectid_def)

lemma ensure_objectid_None:
  "ObjectId_init v (shd (oids s)) = None \<Longrightarrow>
   ensure_objectid v s = (Inl (HTTPException 400 ''Invalid ID format''), s)"
  by (simp add: ensure_objectid_def)

lemma cancel_alert_run:
  assumes "db s = Some d"
    and "ObjectId_of_str (alert_id payload) = Some aid"
    and "filter (matches [(''_id'', POid aid)]) (d ''alert'') = alert # more_alerts"
    and "ObjectId_init (doc_get alert ''user_id'' PNone) (shd (oids s)) = Some uoid"
  shows "cancel_alert payload s =
     (let s1 = (if doc_get alert ''user_id'' PNone = PNone then s\<lparr>oids := stl (oids s)\<rparr> else s) in
      if (case filter (matches [(''_id'', POid uoid)]) (d ''user'') of
            [] \<Rightarrow> False
          | user # _ \<Rightarrow> truthy (doc_get user ''pin'' PNone)
                         \<and> pin_rejected (pin payload) (doc_get user ''pin'' PNone))
      then (Inl (HTTPException 403 ''Invalid PIN''),
            s1\<lparr>calls := calls s @ [Find ''alert'', Find ''user'']\<rparr>)
      else (Inr (PDict [(''alert_id'', PStr (alert_id payload)), (''status'', PStr ''canceled'')]),
            s1\<lparr>db := Some (d(''alert'' := update_one [(''_id'', POid aid)]
                                  [(''status'', PStr ''canceled'')] (d ''alert''))),
               calls := calls s @ [Find ''alert'', Find ''user'', UpdateOne ''alert'']\<rparr>))"
  using assms
  by (simp add: cancel_alert_def then_do_def ensure_objectid_PStr get_documents_Some
       ensure_objectid_Some raise_def succeed_def Let_def)

lemma cancel_alert_error_cases:
  "db s = None \<or> ObjectId_of_str (alert_id payload) = None \<Longrightarrow>
     fst (cancel_alert payload s) \<in> {Inl StoreUnavailable, Inl (HTTPException 400 ''Invalid ID format'')} \<and> snd (cancel_alert payload s) = s"
  by (auto simp add: cancel_alert_def then_do_def ensure_objectid_PStr get_documents_None split: option.splits)

lemma cancel_alert_no_alert:
  assumes "db s = Some d"
    and "ObjectId_of_str (alert_id payload) = Some aid"
    and "filter (matches [(''_id'', POid aid)]) (d ''alert'') = []"
  shows "cancel_alert payload s = (Inl (HTTPException 404 ''Alert not found''), s\<lparr>calls := calls s @ [Find ''alert'']\<rparr>)"
  using assms
  by (simp add: cancel_alert_def then_do_def ensure_objectid_PStr get_documents_Some raise_def)

lemma cancel_alert_bad_owner:
  assumes "db s = Some d"
    and "ObjectId_of_str (alert_id payload) = Some aid"
    and "filter (matches [(''_id'', POid aid)]) (d ''alert'') = alert # more_alerts"
    and "ObjectId_init (doc_get alert ''user_id'' PNone) (shd (oids s)) = None"
  shows "cancel_alert payload s = (Inl (HTTPException 400 ''Invalid ID format''), s\<lparr>calls := calls s @ [Find ''alert'']\<rparr>)"
  using assms
  by (simp add: cancel_alert_def then_do_def ensure_objectid_PStr get_documents_Some raise_def ensure_objectid_None)

subsection \<open>Generated identifiers are well-formed\<close>

lemma nibble_all: "\<forall>n\<in>{0..<16}. hexval (hexdigit n) = Some n \<and> \<not> isspace (hexdigit n)"
  by (simp add: atLeastLessThan_upt upt_rec hexdigit_def hexval_def isspace_def)

lemma nibble: "n < 16 \<Longrightarrow> hexval (hexdigit n) = Some n \<and> \<not> isspace (hexdigit n)"
  using nibble_all by simp

lemma byte_nibbles: "word_of_nat (16 * (unat b div 16) + unat b mod 16) = (b :: 8 word)"
  by simp

lemma fromhex_hexlify: "fromhex (hexlify bs) = Some bs"
proof (induction bs)
  case Nil
  show ?case by simp
next
  case (Cons b bs)
  have "unat b < 256"
    using unsigned_less [of b, where ?'a = nat] by simp
  then have hi: "unat b div 16 < 16"
    by arith
  have lo: "unat b mod 16 < 16" by simp
  show ?case
    using nibble[OF hi] nibble[OF lo] Cons.IH by (simp add: byte_nibbles)
qed

lemma length_hexlify: "length (hexlify bs) = 2 * length bs"
  by (induction bs) simp_all

lemma length_oid_bytes: "length (oid_bytes w) = 12"
  by (simp add: oid_bytes_def)

lemma ObjectId_of_str_generated:
  "ObjectId_of_str (str_of_ObjectId (ObjectId (oid_bytes w))) = Some (ObjectId (oid_bytes w))"
  by (simp add: ObjectId_of_str_def str_of_ObjectId_def length_hexlify length_oid_bytes fromhex_hexlify)


lemma create_document_Some:
  "db s = Some d \<Longrightarrow> create_document c data s =
     (Inr (str_of_ObjectId (ObjectId (oid_bytes (shd (oids s))))),
      s\<lparr>db := Some (d(c := d c @ [\<lparr>doc_id = ObjectId (oid_bytes (shd (oids s))), doc_fields = data\<rparr>])),
        oids := stl (oids s),
        calls := calls s @ [InsertOne c]\<rparr>)"
  by (simp add: create_document_def Let_def)

lemma insert_contacts_run:
  "db s = Some d \<Longrightarrow>
   insert_contacts uid cs s =
     (Inr (),
      s\<lparr>db := Some (d(''contact'' := d ''contact'' @ contact_docs uid cs (stake (length cs) (oids s)))),
        oids := sdrop (length cs) (oids s),
        calls := calls s @ replicate (length cs) (InsertOne ''contact'')\<rparr>)"
proof (induction cs arbitrary: s d)
  case Nil
  then show ?case by (simp add: contact_docs_def)
next
  case (Cons c cs)
  define doc where "doc = \<lparr>doc_id = ObjectId (oid_bytes (shd (oids s))),
               doc_fields = AList.update ''user_id'' (PStr uid) (Contact_model_dump c)\<rparr>"
  define d1 where "d1 = d(''contact'' := d ''contact'' @ [doc])"
  define s1 where "s1 = s\<lparr>db := Some d1, oids := stl (oids s),
                          calls := calls s @ [InsertOne ''contact'']\<rparr>"
  have step: "create_document ''contact''
             (AList.update ''user_id'' (PStr uid) (Contact_model_dump c)) s
           = (Inr (str_of_ObjectId (doc_id doc)), s1)"
    using Cons.prems by (simp add: create_document_Some s1_def d1_def doc_def)
  have "db s1 = Some d1" by (simp add: s1_def)
  from Cons.IH[OF this]
  have rest: "insert_contacts uid cs s1 =
     (Inr (),
      s1\<lparr>db := Some (d1(''contact'' := d1 ''contact'' @ contact_docs uid cs (stake (length cs) (oids s1)))),
        oids := sdrop (length cs) (oids s1),
        calls := calls s1 @ replicate (length cs) (InsertOne ''contact'')\<rparr>)" .
  have docs: "contact_docs uid (c # cs) (stake (length (c # cs)) (oids s))
            = doc # contact_docs uid cs (stake (length cs) (oids s1))"
    by (simp add: contact_docs_def doc_def s1_def)
  have upd: "d1(''contact'' := d1 ''contact'' @ contact_docs uid cs (stake (length cs) (oids s1)))
           = d(''contact'' := d ''contact'' @ contact_docs uid (c # cs) (stake (length (c # cs)) (oids s)))"
    unfolding docs by (simp add: d1_def)
  have "insert_contacts uid (c # cs) s = insert_contacts uid cs s1"
    by (simp add: step)
  also note rest
  finally have "insert_contacts uid (c # cs) s =
     (Inr (),
      s1\<lparr>db := Some (d(''contact'' := d ''contact'' @ contact_docs uid (c # cs) (stake (length (c # cs)) (oids s)))),
        oids := sdrop (length cs) (oids s1),
        calls := calls s1 @ replicate (length cs) (InsertOne ''contact'')\<rparr>)"
    unfolding upd .
  also have "s1\<lparr>db := Some (d(''contact'' := d ''contact'' @ contact_docs uid (c # cs) (stake (length (c # cs)) (oids s)))),
        oids := sdrop (length cs) (oids s1),
        calls := calls s1 @ replicate (length cs) (InsertOne ''contact'')\<rparr>
     = s\<lparr>db := Some (d(''contact'' := d ''contact'' @ contact_docs uid (c # cs) (stake (length (c # cs)) (oids s)))),
        oids := sdrop (length (c # cs)) (oids s),
        calls := calls s @ replicate (length (c # cs)) (InsertOne ''contact'')\<rparr>"
    unfolding s1_def by (rule state.equality) (simp_all add: replicate_app_Cons_same)
  finally show ?case .
qed

subsection \<open>Registration\<close>

lemma matches_id: "matches [(''_id'', POid oid)] d \<longleftrightarrow> doc_id d = oid"
  by (auto simp add: matches_def doc_lookup_def)

lemma matches_user_id:
  "matches [(''user_id'', PStr uid)] d \<longleftrightarrow> map_of (doc_fields d) ''user_id'' = Some (PStr uid)"
  by (simp add: matches_def doc_lookup_def)

lemma contact_docs_match:
  "filter (matches [(''user_id'', PStr uid)]) (contact_docs uid cs ws) = contact_docs uid cs ws"
  by (rule filter_True) (auto simp add: contact_docs_def matches_user_id update_conv' dest!: set_zip_leftD in_set_zipE)

lemma register_user_run:
  assumes "db s = Some d"
  shows "\<exists>s'. register_user payload s =
           (Inr (PDict [(''user_id'', PStr (str_of_ObjectId (ObjectId (oid_bytes (shd (oids s))))))]), s')
         \<and> db s' = Some (d(''user'' := d ''user'' @
                            [\<lparr>doc_id = ObjectId (oid_bytes (shd (oids s))),
                              doc_fields = RegisterUserRequest_model_dump payload\<rparr>],
                          ''contact'' := d ''contact'' @
                            contact_docs (str_of_ObjectId (ObjectId (oid_bytes (shd (oids s)))))
                              (submitted payload)
                              (stake (length (submitted payload)) (stl (oids s)))))"
proof -
  define uid where "uid = str_of_ObjectId (ObjectId (oid_bytes (shd (oids s))))"
  define d1 where "d1 = d(''user'' := d ''user'' @
                            [\<lparr>doc_id = ObjectId (oid_bytes (shd (oids s))),
                              doc_fields = RegisterUserRequest_model_dump payload\<rparr>])"
  define s1 where "s1 = s\<lparr>db := Some d1, oids := stl (oids s), calls := calls s @ [InsertOne ''user'']\<rparr>"
  have step: "create_document ''user'' (RegisterUserRequest_model_dump payload) s = (Inr uid, s1)"
    using assms by (simp add: create_document_Some uid_def s1_def d1_def)
  have db1: "db s1 = Some d1" by (simp add: s1_def)
  have same: "d1(''contact'' := d1 ''contact'' @ []) = d1" by (simp add: fun_upd_idem_iff)
  show ?thesis
  proof (cases "submitted payload")
    case Nil
    then have "register_user payload s = (Inr (PDict [(''user_id'', PStr uid)]), s1)"
      by (auto simp add: register_user_def then_do_def step succeed_def submitted_def
            split: option.splits list.splits)
    moreover have "db s1 = Some (d1(''contact'' := d1 ''contact'' @ contact_docs uid (submitted payload)
                              (stake (length (submitted payload)) (stl (oids s)))))"
      using Nil by (simp add: db1 contact_docs_def)
    ultimately show ?thesis
      unfolding uid_def[symmetric] by (auto simp add: d1_def)
  next
    case (Cons c cs)
    then have cs: "contacts payload = Some (c # cs)"
      by (simp add: submitted_def split: option.splits)
    have "register_user payload s =
        (Inr (PDict [(''user_id'', PStr uid)]), snd (insert_contacts uid (c # cs) s1))"
      using insert_contacts_run[OF db1, of uid "c # cs"]
      by (simp add: register_user_def then_do_def step succeed_def cs)
    moreover have "db (snd (insert_contacts uid (c # cs) s1)) =
         Some (d1(''contact'' := d1 ''contact'' @ contact_docs uid (submitted payload)
                              (stake (length (submitted payload)) (stl (oids s)))))"
      using insert_contacts_run[OF db1, of uid "c # cs"] Cons by (simp add: s1_def)
    ultimately show ?thesis
      unfolding uid_def[symmetric] by (auto simp add: d1_def)
  qed
qed

lemma without_id_listed:
  "without_id (id_to_str \<lparr>doc_id = oid, doc_fields = AList.update ''user_id'' (PStr uid) (Contact_model_dump c)\<rparr>)
     = PDict (contact_record uid c)"
  by (simp add: without_id_def id_to_str_def contact_record_def Contact_model_dump_def)

lemma listed_contact_docs:
  "length ws = length cs \<Longrightarrow>
   map (\<lambda>d. without_id (id_to_str d)) (contact_docs uid cs ws) = map (\<lambda>c. PDict (contact_record uid c)) cs"
proof (induction cs ws rule: list_induct2')
  case (4 c cs w ws)
  then show ?case
    using without_id_listed[of "ObjectId (oid_bytes w)" uid c] by (simp add: contact_docs_def)
qed (simp_all add: contact_docs_def)

lemma list_contacts_run:
  assumes "db s = Some d" and "ObjectId_of_str uid = Some oid"
  shows "list_contacts uid s =
     (Inr (PList (map id_to_str (filter (matches [(''user_id'', PStr uid)]) (d ''contact'')))),
      s\<lparr>calls := calls s @ [Find ''contact'']\<rparr>)"
  using assms
  by (simp add: list_contacts_def then_do_def ensure_objectid_PStr get_documents_Some succeed_def)

lemma example_fresh_id:
  "str_of_ObjectId (ObjectId (oid_bytes (shd (oids example_state)))) = ''000000000000000000000010''"
  by (simp add: example_state_def str_of_ObjectId_def oid_bytes_def hexdigit_def upt_rec)

subsection \<open>Cancellation, by cases\<close>

lemma cancel_alert_cases:
  obtains
    (unavailable) "db s = None \<or> ObjectId_of_str (alert_id payload) = None"
  | (no_alert) d aid where "db s = Some d" "ObjectId_of_str (alert_id payload) = Some aid"
      "filter (matches [(''_id'', POid aid)]) (d ''alert'') = []"
  | (bad_owner) d aid alert more_alerts where "db s = Some d"
      "ObjectId_of_str (alert_id payload) = Some aid"
      "filter (matches [(''_id'', POid aid)]) (d ''alert'') = alert # more_alerts"
      "ObjectId_init (doc_get alert ''user_id'' PNone) (shd (oids s)) = None"
  | (owner) d aid alert more_alerts uoid where "db s = Some d"
      "ObjectId_of_str (alert_id payload) = Some aid"
      "filter (matches [(''_id'', POid aid)]) (d ''alert'') = alert # more_alerts"
      "ObjectId_init (doc_get alert ''user_id'' PNone) (shd (oids s)) = Some uoid"
proof (cases "db s")
  case None
  then show ?thesis using unavailable by simp
next
  case d: (Some d)
  show ?thesis
  proof (cases "ObjectId_of_str (alert_id payload)")
    case None
    then show ?thesis using unavailable by simp
  next
    case aid: (Some aid)
    show ?thesis
    proof (cases "filter (matches [(''_id'', POid aid)]) (d ''alert'')")
      case Nil
      then show ?thesis using no_alert d aid by blast
    next
      case (Cons alert more_alerts)
      then show ?thesis
        using bad_owner[OF d aid Cons] owner[OF d aid Cons]
        by (cases "ObjectId_init (doc_get alert ''user_id'' PNone) (shd (oids s))") auto
    qed
  qed
qed

lemma set_fields_status:
  "doc_id (set_fields [(''status'', v)] a) = doc_id a"
  "doc_lookup (set_fields [(''status'', v)] a) k = (if k = ''status'' then Some v else doc_lookup a k)"
  by (simp_all add: set_fields_def doc_lookup_def update_conv')

lemma update_one_first:
  "filter (matches flt) ds = a # rest \<Longrightarrow>
   \<exists>pre post. ds = pre @ a # post \<and> (\<forall>x\<in>set pre. \<not> matches flt x) \<and> matches flt a \<and>
      update_one flt upd ds = pre @ set_fields upd a # post"
proof (induction ds)
  case Nil
  then show ?case by simp
next
  case (Cons x ds)
  show ?case
  proof (cases "matches flt x")
    case True
    with Cons.prems have "x = a" by simp
    with True have "x # ds = [] @ a # ds \<and> (\<forall>y\<in>set []. \<not> matches flt y) \<and> matches flt a \<and>
        update_one flt upd (x # ds) = [] @ set_fields upd a # ds"
      by simp
    then show ?thesis by blast
  next
    case False
    with Cons.prems have "filter (matches flt) ds = a # rest" by simp
    from Cons.IH[OF this] obtain pre post where
      "ds = pre @ a # post" "\<forall>y\<in>set pre. \<not> matches flt y" "matches flt a"
      "update_one flt upd ds = pre @ set_fields upd a # post"
      by blast
    with False have "x # ds = (x # pre) @ a # post \<and> (\<forall>y\<in>set (x # pre). \<not> matches flt y) \<and>
        matches flt a \<and> update_one flt upd (x # ds) = (x # pre) @ set_fields upd a # post"
      by simp
    then show ?thesis by blast
  qed
qed

lemma filter_first_restatus:
  assumes "\<forall>x\<in>set pre. doc_id x \<noteq> aid" and "doc_id a = aid"
  shows "filter (matches [(''_id'', POid aid)]) (pre @ set_fields [(''status'', st)] a # post)
       = set_fields [(''status'', st)] a # filter (matches [(''_id'', POid aid)]) post"
proof -
  have "filter (matches [(''_id'', POid aid)]) pre = []"
    using assms(1) by (simp add: filter_empty_conv matches_id)
  then show ?thesis
    using assms(2) by (simp add: matches_id set_fields_status)
qed

subsection \<open>Alert creation\<close>

lemma create_alert_run:
  assumes "db s = Some d" and "ObjectId_of_str (user_id payload) = Some oid"
  shows "create_alert payload s =
     (case filter (matches [(''_id'', POid oid)]) (d ''user'') of
        [] \<Rightarrow> (Inl (HTTPException 404 ''User not found''), s\<lparr>calls := calls s @ [Find ''user'']\<rparr>)
      | user # _ \<Rightarrow>
          (Inr (PDict [(''alert_id'', PStr (str_of_ObjectId (ObjectId (oid_bytes (shd (oids s)))))),
                       (''status'', PStr ''active'')]),
           s\<lparr>db := Some (d(''alert'' := d ''alert'' @
                      [\<lparr>doc_id = ObjectId (oid_bytes (shd (oids s))),
                        doc_fields = alert_data payload user\<rparr>])),
             oids := stl (oids s),
             calls := calls s @ [Find ''user'', InsertOne ''alert'']\<rparr>))"
  using assms
  by (simp add: create_alert_def then_do_def ensure_objectid_PStr get_documents_Some
        create_document_Some raise_def succeed_def split: list.splits)

subsection \<open>The example store, evaluated\<close>

lemma example_db:
  "db example_state = Some example_db"
  "example_db ''user'' = [user_A, user_B]"
  "example_db ''alert'' = [alert_of_A, alert_of_B, orphan_alert]"
  "example_db ''contact'' = []"
  by (simp_all add: example_state_def example_db_def)

lemma example_ids:
  "ObjectId_of_str ''000000000000000000000001'' = Some (doc_id user_A)"
  "ObjectId_of_str ''000000000000000000000002'' = Some (doc_id user_B)"
  "ObjectId_of_str ''000000000000000000000009'' = Some (ObjectId [0, 0, 0, 0, 0, 0, 0, 0, 0, 0, 0, 9])"
  "ObjectId_of_str ''00000000000000000000000a'' = Some (doc_id alert_of_A)"
  "ObjectId_of_str ''00000000000000000000000b'' = Some (doc_id alert_of_B)"
  "ObjectId_of_str ''00000000000000000000000c'' = Some (doc_id orphan_alert)"
  by (simp_all add: ObjectId_of_str_def hexval_def isspace_def user_A_def user_B_def
        alert_of_A_def alert_of_B_def orphan_alert_def)

lemma example_find_alert:
  "filter (matches [(''_id'', POid (doc_id alert_of_A))]) (example_db ''alert'') = [alert_of_A]"
  "filter (matches [(''_id'', POid (doc_id alert_of_B))]) (example_db ''alert'') = [alert_of_B]"
  "filter (matches [(''_id'', POid (doc_id orphan_alert))]) (example_db ''alert'') = [orphan_alert]"
  by (simp_all add: example_db matches_id alert_of_A_def alert_of_B_def orphan_alert_def)

lemma example_find_user:
  "filter (matches [(''_id'', POid (doc_id user_A))]) (example_db ''user'') = [user_A]"
  "filter (matches [(''_id'', POid (doc_id user_B))]) (example_db ''user'') = [user_B]"
  "filter (matches [(''_id'', POid (ObjectId [0, 0, 0, 0, 0, 0, 0, 0, 0, 0, 0, 9]))]) (example_db ''user'') = []"
  by (simp_all add: example_db matches_id user_A_def user_B_def)

lemma example_owner:
  "ObjectId_init (doc_get alert_of_A ''user_id'' PNone) w = Some (doc_id user_A)"
  "ObjectId_init (doc_get alert_of_B ''user_id'' PNone) w = Some (doc_id user_B)"
  "ObjectId_init (doc_get orphan_alert ''user_id'' PNone) w = Some (ObjectId [0, 0, 0, 0, 0, 0, 0, 0, 0, 0, 0, 9])"
  using example_ids
  by (simp_all add: ObjectId_init_def doc_get_def doc_lookup_def alert_of_A_def alert_of_B_def orphan_alert_def)

lemma example_pins:
  "doc_get user_A ''pin'' PNone = PStr ''1234''"
  "doc_get user_B ''pin'' PNone = PNone"
  by (simp_all add: doc_get_def doc_lookup_def user_A_def user_B_def)

lemma example_fresh_oid:
  "ObjectId (oid_bytes (shd (oids example_state))) = ObjectId [0, 0, 0, 0, 0, 0, 0, 0, 0, 0, 0, 16]"
  by (simp add: example_state_def oid_bytes_def upt_rec)

lemma example_forbidden:
  "cancel_alert \<lparr>alert_id = ''00000000000000000000000a'', pin = Some ''0000''\<rparr> example_state
     = (Inl (HTTPException 403 ''Invalid PIN''),
        example_state\<lparr>calls := calls example_state @ [Find ''alert'', Find ''user'']\<rparr>)"
proof -
  have A: "ObjectId_of_str (alert_id \<lparr>alert_id = ''00000000000000000000000a'', pin = Some ''0000''\<rparr>)
             = Some (doc_id alert_of_A)"
    by (simp add: example_ids)
  have "doc_get alert_of_A ''user_id'' PNone \<noteq> PNone"
    by (simp add: doc_get_def doc_lookup_def alert_of_A_def)
  with cancel_alert_run[OF example_db(1) A example_find_alert(1) example_owner(1)]
  show ?thesis
    by (simp add: example_find_user example_pins pin_rejected_def)
qed

lemma example_cancel_resolved:
  "cancel_alert \<lparr>alert_id = ''00000000000000000000000b'', pin = None\<rparr> example_state
     = (Inr (PDict [(''alert_id'', PStr ''00000000000000000000000b''), (''status'', PStr ''canceled'')]),
        example_state\<lparr>db := Some (example_db(''alert'' :=
              [alert_of_A, set_fields [(''status'', PStr ''canceled'')] alert_of_B, orphan_alert])),
           calls := calls example_state @ [Find ''alert'', Find ''user'', UpdateOne ''alert'']\<rparr>)"
proof -
  have B: "ObjectId_of_str (alert_id \<lparr>alert_id = ''00000000000000000000000b'', pin = None\<rparr>)
             = Some (doc_id alert_of_B)"
    by (simp add: example_ids)
  have "doc_get alert_of_B ''user_id'' PNone \<noteq> PNone"
    by (simp add: doc_get_def doc_lookup_def alert_of_B_def)
  moreover have "update_one [(''_id'', POid (doc_id alert_of_B))] [(''status'', PStr ''canceled'')]
        (example_db ''alert'') = [alert_of_A, set_fields [(''status'', PStr ''canceled'')] alert_of_B, orphan_alert]"
    by (simp add: example_db matches_id) (simp add: alert_of_A_def alert_of_B_def)
  ultimately show ?thesis
    using cancel_alert_run[OF example_db(1) B example_find_alert(2) example_owner(2)]
    by (simp add: example_find_user example_pins)
qed

lemma example_body_valid:
  "RegisterUserRequest_validate any_email example_body = Some example_registration"
  by (simp add: example_body_def example_registration_def example_contacts_def
        RegisterUserRequest_validate_def contacts_optional_def
        Contact_validate_def str_required_def str_default_def str_optional_def email_optional_def)


subsection \<open>Validation of contacts\<close>

lemma those_None: "None \<in> set xs \<Longrightarrow> those xs = None"
  by (induction xs) (auto split: option.splits)

lemma Contact_validate_needs_user_id:
  "map_of kvs ''user_id'' = None \<Longrightarrow> Contact_validate ev (PDict kvs) = None"
  by (simp add: Contact_validate_def str_required_def)

lemma validate_rejects_contact:
  assumes "map_of body ''contacts'' = Some (PList xs)" and "PDict kvs \<in> set xs"
    and "map_of kvs ''user_id'' = None"
  shows "RegisterUserRequest_validate ev (PDict body) = None"
proof -
  have "None \<in> set (map (Contact_validate ev) xs)"
    using assms(2) Contact_validate_needs_user_id[OF assms(3), of ev] by force
  then have "contacts_optional ev body = None"
    using assms(1) by (simp add: contacts_optional_def those_None)
  then show ?thesis
    by (simp add: RegisterUserRequest_validate_def split: Option.bind_split)
qed

lemma contact_docs_fields:
  "length ws = length cs \<Longrightarrow> map doc_fields (contact_docs uid cs ws) = map (contact_record uid) cs"
  by (induction cs ws rule: list_induct2') (simp_all add: contact_docs_def contact_record_def)

lemma contact_docs_user_id:
  "c \<in> set (contact_docs uid cs ws) \<Longrightarrow> doc_lookup c ''user_id'' = Some (PStr uid)"
  by (auto simp add: contact_docs_def doc_lookup_def update_conv' dest!: in_set_zipE)


subsection \<open>Strings the identifier constructor rejects\<close>




section \<open>The claims of the specification\<close>

text \<open>
  C1. PIN rule of cancellation. Let the request name an existing alert (the first document
  of the collection \<^verbatim>\<open>alert\<close> with that \<^verbatim>\<open>_id\<close>) whose owner, the first user found under
  the alert's stored \<^verbatim>\<open>user_id\<close>, exists. If the owner's stored \<^verbatim>\<open>pin\<close> is non-empty, the
  cancellation succeeds exactly when the request supplies a PIN equal to it as a string,
  and every other request, with a different PIN or none, fails with 403. If the owner has
  no PIN, the cancellation succeeds whatever the request's \<^verbatim>\<open>pin\<close> field holds.
\<close>

theorem cancel_alert_pin_rule:
  assumes "db s = Some d"
    and "ObjectId_of_str (alert_id payload) = Some aid"
    and "filter (matches [(''_id'', POid aid)]) (d ''alert'') = alert # more_alerts"
    and "ObjectId_init (doc_get alert ''user_id'' PNone) (shd (oids s)) = Some uoid"
    and "filter (matches [(''_id'', POid uoid)]) (d ''user'') = user # more_users"
  shows "(truthy (doc_get user ''pin'' PNone) \<longrightarrow>
            (fst (cancel_alert payload s) = Inr (canceled_response payload)
               \<longleftrightarrow> (\<exists>x. pin payload = Some x \<and> PStr x = doc_get user ''pin'' PNone)) \<and>
            (\<not> (\<exists>x. pin payload = Some x \<and> PStr x = doc_get user ''pin'' PNone) \<longrightarrow>
               fst (cancel_alert payload s) = Inl (HTTPException 403 ''Invalid PIN''))) \<and>
         (\<not> truthy (doc_get user ''pin'' PNone) \<longrightarrow>
            fst (cancel_alert payload s) = Inr (canceled_response payload))"
proof -
  have run: "fst (cancel_alert payload s) =
     (if truthy (doc_get user ''pin'' PNone) \<and> pin_rejected (pin payload) (doc_get user ''pin'' PNone)
      then Inl (HTTPException 403 ''Invalid PIN'')
      else Inr (canceled_response payload))"
    using cancel_alert_run[OF assms(1-4)] assms(5)
    by (simp add: Let_def canceled_response_def)
  have rej: "truthy (doc_get user ''pin'' PNone) \<Longrightarrow>
      pin_rejected (pin payload) (doc_get user ''pin'' PNone)
        \<longleftrightarrow> \<not> (\<exists>x. pin payload = Some x \<and> PStr x = doc_get user ''pin'' PNone)"
  proof -
    assume t: "truthy (doc_get user ''pin'' PNone)"
    have "PStr [] \<noteq> doc_get user ''pin'' PNone"
    proof
      assume "PStr [] = doc_get user ''pin'' PNone"
      with t have "truthy (PStr [])" by simp
      then show False by simp
    qed
    then show ?thesis
      by (auto simp add: pin_rejected_def split: option.splits)
  qed
  show ?thesis
    using rej by (auto simp add: run)
qed

theorem cancel_alert_pin_rule_witness:
  "fst (cancel_alert \<lparr>alert_id = ''00000000000000000000000a'', pin = Some ''1234''\<rparr> example_state)
     = Inr (PDict [(''alert_id'', PStr ''00000000000000000000000a''), (''status'', PStr ''canceled'')]) \<and>
   fst (cancel_alert \<lparr>alert_id = ''00000000000000000000000a'', pin = Some ''0000''\<rparr> example_state)
     = Inl (HTTPException 403 ''Invalid PIN'') \<and>
   fst (cancel_alert \<lparr>alert_id = ''00000000000000000000000a'', pin = None\<rparr> example_state)
     = Inl (HTTPException 403 ''Invalid PIN'') \<and>
   fst (cancel_alert \<lparr>alert_id = ''00000000000000000000000b'', pin = None\<rparr> example_state)
     = Inr (PDict [(''alert_id'', PStr ''00000000000000000000000b''), (''status'', PStr ''canceled'')]) \<and>
   fst (cancel_alert \<lparr>alert_id = ''00000000000000000000000b'', pin = Some ''0000''\<rparr> example_state)
     = Inr (PDict [(''alert_id'', PStr ''00000000000000000000000b''), (''status'', PStr ''canceled'')])"
proof -
  have A: "ObjectId_of_str (alert_id \<lparr>alert_id = ''00000000000000000000000a'', pin = p\<rparr>)
             = Some (doc_id alert_of_A)" for p
    by (simp add: example_ids)
  have B: "ObjectId_of_str (alert_id \<lparr>alert_id = ''00000000000000000000000b'', pin = p\<rparr>)
             = Some (doc_id alert_of_B)" for p
    by (simp add: example_ids)
  note ruleA = cancel_alert_pin_rule[OF example_db(1) A example_find_alert(1) example_owner(1)
                 example_find_user(1)]
  note ruleB = cancel_alert_pin_rule[OF example_db(1) B example_find_alert(2) example_owner(2)
                 example_find_user(2)]
  show ?thesis
    using ruleA[of "Some ''1234''"] ruleA[of "Some ''0000''"] ruleA[of None]
      ruleB[of None] ruleB[of "Some ''0000''"]
    by (simp add: example_pins canceled_response_def)
qed

text \<open>
  C2. A cancellation rejected with 403 writes nothing: the store holds the same documents
  afterwards, so the alert's status is what it was, and the only operations issued to the
  store are the two reads of the alert and of its owner.
\<close>

theorem cancel_alert_forbidden_no_write:
  assumes "fst (cancel_alert payload s) = Inl (HTTPException 403 ''Invalid PIN'')"
  shows "db (snd (cancel_alert payload s)) = db s \<and>
         calls (snd (cancel_alert payload s)) = calls s @ [Find ''alert'', Find ''user'']"
proof (cases rule: cancel_alert_cases[of s payload])
  case unavailable
  from cancel_alert_error_cases[OF this] assms show ?thesis by auto
next
  case (no_alert d aid)
  from cancel_alert_no_alert[OF this] assms show ?thesis by simp
next
  case (bad_owner d aid alert more_alerts)
  from cancel_alert_bad_owner[OF this] assms show ?thesis by simp
next
  case (owner d aid alert more_alerts uoid)
  from cancel_alert_run[OF this] assms owner(1) show ?thesis
    by (simp add: Let_def split: if_splits)
qed

theorem cancel_alert_forbidden_no_write_witness:
  "fst (cancel_alert \<lparr>alert_id = ''00000000000000000000000a'', pin = Some ''0000''\<rparr> example_state)
     = Inl (HTTPException 403 ''Invalid PIN'') \<and>
   db (snd (cancel_alert \<lparr>alert_id = ''00000000000000000000000a'', pin = Some ''0000''\<rparr> example_state))
     = Some example_db \<and>
   calls (snd (cancel_alert \<lparr>alert_id = ''00000000000000000000000a'', pin = Some ''0000''\<rparr> example_state))
     = [Find ''alert'', Find ''user'']"
proof -
  have forbidden:
    "fst (cancel_alert \<lparr>alert_id = ''00000000000000000000000a'', pin = Some ''0000''\<rparr> example_state)
       = Inl (HTTPException 403 ''Invalid PIN'')"
    by (simp add: example_forbidden)
  have "calls example_state = []" by (simp add: example_state_def)
  with cancel_alert_forbidden_no_write[OF forbidden] forbidden show ?thesis
    by (simp add: example_db)
qed

text \<open>
  C3. For every valid registration payload, with the store available, registration
  returns a user identifier, and listing the contacts of that identifier afterwards
  returns exactly the submitted contacts, as a set and as a multiset: each listed record,
  apart from the \<^verbatim>\<open>_id\<close> the store added, is a submitted contact carrying the new
  identifier as its \<^verbatim>\<open>user_id\<close>. The identifier is newly generated: no contact already
  in the store refers to it.
\<close>

theorem register_then_list_contacts:
  assumes "db s = Some d"
    and "\<forall>c \<in> set (d ''contact'').
           doc_lookup c ''user_id'' \<noteq> Some (PStr (str_of_ObjectId (ObjectId (oid_bytes (shd (oids s))))))"
  shows "\<exists>uid s1 listed s2.
      uid = str_of_ObjectId (ObjectId (oid_bytes (shd (oids s)))) \<and>
      register_user payload s = (Inr (PDict [(''user_id'', PStr uid)]), s1) \<and>
      list_contacts uid s1 = (Inr (PList listed), s2) \<and>
      mset (map without_id listed) = mset (map (\<lambda>c. PDict (contact_record uid c)) (submitted payload)) \<and>
      set (map without_id listed) = set (map (\<lambda>c. PDict (contact_record uid c)) (submitted payload))"
proof -
  define uid where "uid = str_of_ObjectId (ObjectId (oid_bytes (shd (oids s))))"
  define new where "new = contact_docs uid (submitted payload)
                              (stake (length (submitted payload)) (stl (oids s)))"
  from register_user_run[OF assms(1), of payload]
  obtain s1 d1 where reg: "register_user payload s = (Inr (PDict [(''user_id'', PStr uid)]), s1)"
    and db1: "db s1 = Some d1" and contact1: "d1 ''contact'' = d ''contact'' @ new"
    unfolding uid_def new_def by auto
  have wf: "ObjectId_of_str uid = Some (ObjectId (oid_bytes (shd (oids s))))"
    unfolding uid_def by (rule ObjectId_of_str_generated)
  have old: "filter (matches [(''user_id'', PStr uid)]) (d ''contact'') = []"
    using assms(2) by (auto simp add: filter_empty_conv matches_def uid_def)
  have "filter (matches [(''user_id'', PStr uid)]) (d1 ''contact'') = new"
    by (simp add: contact1 old new_def contact_docs_match)
  with list_contacts_run[OF db1 wf]
  have lst: "list_contacts uid s1 = (Inr (PList (map id_to_str new)), s1\<lparr>calls := calls s1 @ [Find ''contact'']\<rparr>)"
    by simp
  have eq: "map without_id (map id_to_str new) = map (\<lambda>c. PDict (contact_record uid c)) (submitted payload)"
    using listed_contact_docs[of "stake (length (submitted payload)) (stl (oids s))" "submitted payload" uid]
    by (simp add: new_def comp_def)
  show ?thesis
    using reg lst eq unfolding uid_def[symmetric] by (metis)
qed

theorem register_then_list_contacts_witness:
  "db example_state = Some example_db \<and>
   example_db ''contact'' = [] \<and>
   (\<exists>s1 listed s2.
      register_user example_registration example_state =
         (Inr (PDict [(''user_id'', PStr ''000000000000000000000010'')]), s1) \<and>
      list_contacts ''000000000000000000000010'' s1 = (Inr (PList listed), s2) \<and>
      mset (map without_id listed) =
        mset [PDict [(''user_id'', PStr ''000000000000000000000010''), (''name'', PStr ''B''),
                     (''phone'', PStr ''777''), (''email'', PNone)],
              PDict [(''user_id'', PStr ''000000000000000000000010''), (''name'', PStr ''C''),
                     (''phone'', PNone), (''email'', PNone)]])"
proof -
  have db: "db example_state = Some example_db"
    by (simp add: example_state_def)
  have fresh: "\<forall>c \<in> set (example_db ''contact'').
       doc_lookup c ''user_id'' \<noteq> Some (PStr (str_of_ObjectId (ObjectId (oid_bytes (shd (oids example_state))))))"
    by (simp add: example_db_def)
  have sub: "map (\<lambda>c. PDict (contact_record ''000000000000000000000010'' c)) (submitted example_registration)
     = [PDict [(''user_id'', PStr ''000000000000000000000010''), (''name'', PStr ''B''),
                     (''phone'', PStr ''777''), (''email'', PNone)],
              PDict [(''user_id'', PStr ''000000000000000000000010''), (''name'', PStr ''C''),
                     (''phone'', PNone), (''email'', PNone)]]"
    by (simp add: submitted_def example_registration_def example_contacts_def contact_record_def
          Contact_model_dump_def opt_str_def)
  from register_then_list_contacts[OF db fresh, of example_registration]
  obtain uid s1 listed s2 where
      "uid = ''000000000000000000000010''"
      "register_user example_registration example_state = (Inr (PDict [(''user_id'', PStr uid)]), s1)"
      "list_contacts uid s1 = (Inr (PList listed), s2)"
      "mset (map without_id listed) = mset (map (\<lambda>c. PDict (contact_record uid c)) (submitted example_registration))"
    unfolding example_fresh_id by blast
  then have "\<exists>s1 listed s2.
      register_user example_registration example_state =
         (Inr (PDict [(''user_id'', PStr ''000000000000000000000010'')]), s1) \<and>
      list_contacts ''000000000000000000000010'' s1 = (Inr (PList listed), s2) \<and>
      mset (map without_id listed) =
        mset [PDict [(''user_id'', PStr ''000000000000000000000010''), (''name'', PStr ''B''),
                     (''phone'', PStr ''777''), (''email'', PNone)],
              PDict [(''user_id'', PStr ''000000000000000000000010''), (''name'', PStr ''C''),
                     (''phone'', PNone), (''email'', PNone)]]"
    unfolding sub[symmetric] by blast
  moreover have "example_db ''contact'' = []"
    by (simp add: example_db_def)
  ultimately show ?thesis
    using db by blast
qed

text \<open>
  C4. With the store available and a well-formed \<^verbatim>\<open>user_id\<close>, alert creation fails with
  404 exactly when no user document has that identifier. Otherwise it appends one alert
  to the collection, with the request's \<^verbatim>\<open>user_id\<close>, status \<^verbatim>\<open>active\<close> and \<^verbatim>\<open>share_url\<close>
  \<^verbatim>\<open>None\<close>, and returns the new alert's identifier together with the status \<^verbatim>\<open>active\<close>.
\<close>

theorem create_alert_user_not_found:
  assumes "db s = Some d" and "ObjectId_of_str (user_id payload) = Some oid"
  shows "(fst (create_alert payload s) = Inl (HTTPException 404 ''User not found'')
            \<longleftrightarrow> (\<forall>u \<in> set (d ''user''). doc_id u \<noteq> oid)) \<and>
         ((\<exists>u \<in> set (d ''user''). doc_id u = oid) \<longrightarrow>
            (\<exists>fields.
               fst (create_alert payload s) =
                 Inr (PDict [(''alert_id'', PStr (str_of_ObjectId (ObjectId (oid_bytes (shd (oids s)))))),
                             (''status'', PStr ''active'')]) \<and>
               db (snd (create_alert payload s)) =
                 Some (d(''alert'' := d ''alert'' @
                      [\<lparr>doc_id = ObjectId (oid_bytes (shd (oids s))), doc_fields = fields\<rparr>])) \<and>
               map_of fields ''user_id'' = Some (PStr (user_id payload)) \<and>
               map_of fields ''status'' = Some (PStr ''active'') \<and>
               map_of fields ''share_url'' = Some PNone))"
proof (cases "filter (matches [(''_id'', POid oid)]) (d ''user'')")
  case Nil
  then have none: "\<forall>u \<in> set (d ''user''). doc_id u \<noteq> oid"
    by (simp add: filter_empty_conv matches_id)
  with create_alert_run[OF assms] Nil show ?thesis by simp
next
  case (Cons user more_users)
  then have "user \<in> set (filter (matches [(''_id'', POid oid)]) (d ''user''))" by simp
  then have some: "\<exists>u \<in> set (d ''user''). doc_id u = oid"
    by (auto simp add: matches_id)
  have "map_of (alert_data payload user) ''user_id'' = Some (PStr (user_id payload))"
       "map_of (alert_data payload user) ''status'' = Some (PStr ''active'')"
       "map_of (alert_data payload user) ''share_url'' = Some PNone"
    by (simp_all add: alert_data_def)
  with create_alert_run[OF assms] Cons some show ?thesis by auto
qed

theorem create_alert_user_not_found_witness:
  "fst (create_alert \<lparr>user_id = ''000000000000000000000009'', message = None, location = None\<rparr>
          example_state) = Inl (HTTPException 404 ''User not found'') \<and>
   fst (create_alert \<lparr>user_id = ''000000000000000000000001'', message = Some ''fire'', location = None\<rparr>
          example_state)
     = Inr (PDict [(''alert_id'', PStr ''000000000000000000000010''), (''status'', PStr ''active'')])"
proof -
  have 9: "ObjectId_of_str (user_id \<lparr>user_id = ''000000000000000000000009'', message = None, location = None\<rparr>)
         = Some (ObjectId [0, 0, 0, 0, 0, 0, 0, 0, 0, 0, 0, 9])"
    by (simp add: example_ids)
  have 1: "ObjectId_of_str (user_id \<lparr>user_id = ''000000000000000000000001'', message = Some ''fire'', location = None\<rparr>)
         = Some (doc_id user_A)"
    by (simp add: example_ids)
  have absent: "\<forall>u \<in> set (example_db ''user''). doc_id u \<noteq> ObjectId [0, 0, 0, 0, 0, 0, 0, 0, 0, 0, 0, 9]"
    by (simp add: example_db user_A_def user_B_def)
  have present: "\<exists>u \<in> set (example_db ''user''). doc_id u = doc_id user_A"
    by (simp add: example_db)
  show ?thesis
    using create_alert_user_not_found[OF example_db(1) 9] absent
      create_alert_user_not_found[OF example_db(1) 1] present
    unfolding example_fresh_id by blast
qed

text \<open>
  C5. When the request omits \<^verbatim>\<open>message\<close> and the user's stored record has no
  \<^verbatim>\<open>default_message\<close> field, the persisted alert's message is the fixed emergency string.
  The same holds when the record holds the schema's default, which is what registration
  stores for a body without \<^verbatim>\<open>default_message\<close>.
\<close>

theorem create_alert_fallback_message:
  assumes "db s = Some d" and "ObjectId_of_str (user_id payload) = Some oid"
    and "filter (matches [(''_id'', POid oid)]) (d ''user'') = user # more_users"
    and "message payload = None"
    and "doc_lookup user ''default_message'' = None \<or>
         doc_lookup user ''default_message'' = Some (PStr default_sos_message)"
  shows "\<exists>fields.
     db (snd (create_alert payload s)) =
        Some (d(''alert'' := d ''alert'' @
                 [\<lparr>doc_id = ObjectId (oid_bytes (shd (oids s))), doc_fields = fields\<rparr>])) \<and>
     map_of fields ''message'' =
        Some (PStr ''I need help. This is an emergency. Please check my location and contact me immediately.'')"
proof -
  have "map_of (alert_data payload user) ''message'' = Some (PStr default_sos_message)"
    using assms(4,5) by (auto simp add: alert_data_def alert_message_def opt_str_def doc_get_def)
  with create_alert_run[OF assms(1,2)] assms(3) show ?thesis
    by (auto simp add: default_sos_message_def)
qed

theorem create_alert_fallback_message_witness:
  "doc_lookup user_B ''default_message'' = None \<and>
   (\<exists>fields.
     db (snd (create_alert \<lparr>user_id = ''000000000000000000000002'', message = None, location = None\<rparr>
               example_state)) =
        Some (example_db(''alert'' := [alert_of_A, alert_of_B, orphan_alert,
                 \<lparr>doc_id = ObjectId [0, 0, 0, 0, 0, 0, 0, 0, 0, 0, 0, 16], doc_fields = fields\<rparr>])) \<and>
     map_of fields ''message'' =
        Some (PStr ''I need help. This is an emergency. Please check my location and contact me immediately.''))"
proof -
  have 2: "ObjectId_of_str (user_id \<lparr>user_id = ''000000000000000000000002'', message = None, location = None\<rparr>)
         = Some (doc_id user_B)"
    by (simp add: example_ids)
  have m: "message \<lparr>user_id = ''000000000000000000000002'', message = None, location = None\<rparr> = None"
    by simp
  have none: "doc_lookup user_B ''default_message'' = None"
    by (simp add: doc_lookup_def user_B_def)
  from create_alert_fallback_message[OF example_db(1) 2 example_find_user(2) m disjI1[OF none]] none
  show ?thesis
    unfolding example_fresh_oid by (simp add: example_db)
qed

text \<open>
  C6. Frame of a successful cancellation. The alert collection changes in one document
  only, the first with the requested \<^verbatim>\<open>_id\<close>; that document keeps its \<^verbatim>\<open>_id\<close> and every
  field other than \<^verbatim>\<open>status\<close> (message, location, share_url, user_id among them), and
  its \<^verbatim>\<open>status\<close> becomes \<^verbatim>\<open>canceled\<close>. The prior status plays no part: had the alert
  carried any other status \<open>st\<close>, the same request would have succeeded with the same
  response.
\<close>

theorem cancel_alert_frame:
  assumes "cancel_alert payload s = (Inr r, s')"
  shows "\<exists>d aid pre alert post.
      db s = Some d \<and> ObjectId_of_str (alert_id payload) = Some aid \<and>
      d ''alert'' = pre @ alert # post \<and> doc_id alert = aid \<and> (\<forall>x \<in> set pre. doc_id x \<noteq> aid) \<and>
      db s' = Some (d(''alert'' := pre @ set_fields [(''status'', PStr ''canceled'')] alert # post)) \<and>
      doc_id (set_fields [(''status'', PStr ''canceled'')] alert) = doc_id alert \<and>
      doc_lookup (set_fields [(''status'', PStr ''canceled'')] alert) ''status'' = Some (PStr ''canceled'') \<and>
      (\<forall>k. k \<noteq> ''status'' \<longrightarrow>
           doc_lookup (set_fields [(''status'', PStr ''canceled'')] alert) k = doc_lookup alert k) \<and>
      (\<forall>st. fst (cancel_alert payload
                 (s\<lparr>db := Some (d(''alert'' := pre @ set_fields [(''status'', st)] alert # post))\<rparr>))
            = Inr r)"
proof (cases rule: cancel_alert_cases[of s payload])
  case unavailable
  from cancel_alert_error_cases[OF this] assms show ?thesis by auto
next
  case (no_alert d aid)
  from cancel_alert_no_alert[OF this] assms show ?thesis by simp
next
  case (bad_owner d aid alert more_alerts)
  from cancel_alert_bad_owner[OF this] assms show ?thesis by simp
next
  case (owner d aid alert more_alerts uoid)
  define blocked where "blocked =
     (case filter (matches [(''_id'', POid uoid)]) (d ''user'') of
            [] \<Rightarrow> False
          | user # _ \<Rightarrow> truthy (doc_get user ''pin'' PNone)
                         \<and> pin_rejected (pin payload) (doc_get user ''pin'' PNone))"
  from cancel_alert_run[OF owner] assms
  have nb: "\<not> blocked"
    and r: "r = PDict [(''alert_id'', PStr (alert_id payload)), (''status'', PStr ''canceled'')]"
    and db': "db s' = Some (d(''alert'' := update_one [(''_id'', POid aid)]
                                  [(''status'', PStr ''canceled'')] (d ''alert'')))"
    unfolding blocked_def by (auto simp add: Let_def split: if_splits)
  from update_one_first[OF owner(3), of "[(''status'', PStr ''canceled'')]"]
  obtain pre post where split: "d ''alert'' = pre @ alert # post"
    and pre: "\<forall>x\<in>set pre. doc_id x \<noteq> aid" and a: "doc_id alert = aid"
    and upd: "update_one [(''_id'', POid aid)] [(''status'', PStr ''canceled'')] (d ''alert'')
              = pre @ set_fields [(''status'', PStr ''canceled'')] alert # post"
    by (auto simp add: matches_id)
  have any: "fst (cancel_alert payload
                 (s\<lparr>db := Some (d(''alert'' := pre @ set_fields [(''status'', st)] alert # post))\<rparr>))
            = Inr r" for st
  proof -
    let ?a = "set_fields [(''status'', st)] alert"
    let ?d = "d(''alert'' := pre @ ?a # post)"
    let ?s = "s\<lparr>db := Some ?d\<rparr>"
    have 1: "db ?s = Some ?d" by simp
    have 3: "filter (matches [(''_id'', POid aid)]) (?d ''alert'')
               = ?a # filter (matches [(''_id'', POid aid)]) post"
      using filter_first_restatus[OF pre a] by simp
    have "doc_get ?a ''user_id'' PNone = doc_get alert ''user_id'' PNone"
      by (simp add: doc_get_def set_fields_status)
    then have 4: "ObjectId_init (doc_get ?a ''user_id'' PNone) (shd (oids ?s)) = Some uoid"
      using owner(4) by simp
    have users: "?d ''user'' = d ''user''" by simp
    from cancel_alert_run[OF 1 owner(2) 3 4] nb show ?thesis
      unfolding users blocked_def r by (simp add: Let_def)
  qed
  show ?thesis
    using owner(1,2) split pre a db' any
    unfolding upd by (simp add: set_fields_status) blast
qed

theorem cancel_alert_frame_witness:
  "\<exists>r s'.
     cancel_alert \<lparr>alert_id = ''00000000000000000000000b'', pin = None\<rparr> example_state = (Inr r, s') \<and>
     doc_lookup alert_of_B ''status'' = Some (PStr ''resolved'') \<and>
     db s' = Some (example_db(''alert'' :=
              [alert_of_A, set_fields [(''status'', PStr ''canceled'')] alert_of_B, orphan_alert])) \<and>
     (\<exists>d aid pre alert post.
        db example_state = Some d \<and>
        ObjectId_of_str (alert_id \<lparr>alert_id = ''00000000000000000000000b'', pin = None\<rparr>) = Some aid \<and>
        d ''alert'' = pre @ alert # post \<and> doc_id alert = aid \<and> (\<forall>x \<in> set pre. doc_id x \<noteq> aid) \<and>
        db s' = Some (d(''alert'' := pre @ set_fields [(''status'', PStr ''canceled'')] alert # post)) \<and>
        doc_id (set_fields [(''status'', PStr ''canceled'')] alert) = doc_id alert \<and>
        doc_lookup (set_fields [(''status'', PStr ''canceled'')] alert) ''status'' = Some (PStr ''canceled'') \<and>
        (\<forall>k. k \<noteq> ''status'' \<longrightarrow>
             doc_lookup (set_fields [(''status'', PStr ''canceled'')] alert) k = doc_lookup alert k) \<and>
        (\<forall>st. fst (cancel_alert \<lparr>alert_id = ''00000000000000000000000b'', pin = None\<rparr>
                   (example_state\<lparr>db := Some (d(''alert'' := pre @ set_fields [(''status'', st)] alert # post))\<rparr>))
              = Inr r))"
proof -
  define r where "r = PDict [(''alert_id'', PStr ''00000000000000000000000b''), (''status'', PStr ''canceled'')]"
  define s' where "s' = example_state\<lparr>db := Some (example_db(''alert'' :=
              [alert_of_A, set_fields [(''status'', PStr ''canceled'')] alert_of_B, orphan_alert])),
           calls := calls example_state @ [Find ''alert'', Find ''user'', UpdateOne ''alert'']\<rparr>"
  have run: "cancel_alert \<lparr>alert_id = ''00000000000000000000000b'', pin = None\<rparr> example_state = (Inr r, s')"
    unfolding r_def s'_def by (rule example_cancel_resolved)
  have prior: "doc_lookup alert_of_B ''status'' = Some (PStr ''resolved'')"
    by (simp add: doc_lookup_def alert_of_B_def)
  have after: "db s' = Some (example_db(''alert'' :=
              [alert_of_A, set_fields [(''status'', PStr ''canceled'')] alert_of_B, orphan_alert]))"
    by (simp add: s'_def)
  show ?thesis
    by (rule exI[of _ r], rule exI[of _ s'], intro conjI, rule run, rule prior, rule after,
        rule cancel_alert_frame[OF run])
qed




text \<open>
  C8, as stated, fails: a registration whose contact entry has no \<^verbatim>\<open>user_id\<close> is
  rejected by validation, because \<^verbatim>\<open>Contact.user_id\<close> is a required field, and nothing is
  persisted.
\<close>

theorem register_contact_without_user_id_counterexample:
  "api_register any_email
     (PDict [(''name'', PStr ''A''), (''phone'', PStr ''555''),
             (''contacts'', PList [PDict [(''name'', PStr ''B'')]])])
     example_state
   = (Inl RequestValidationError, example_state)"
  by (simp add: api_register_def RegisterUserRequest_validate_def contacts_optional_def
        Contact_validate_def str_required_def str_default_def str_optional_def email_optional_def
        raise_def)

text \<open>
  C8, amended. A registration body with a contact entry that lacks \<^verbatim>\<open>user_id\<close> is
  rejected with a validation error and leaves the state unchanged. For a body that
  validates, with the store available, each submitted contact is persisted, in order, as
  its own fields with \<^verbatim>\<open>user_id\<close> replaced by the new user's identifier, whatever
  \<^verbatim>\<open>user_id\<close> the contact was submitted with.
\<close>

theorem register_contacts_user_id:
  "(map_of body ''contacts'' = Some (PList xs) \<and> PDict kvs \<in> set xs \<and> map_of kvs ''user_id'' = None
      \<longrightarrow> api_register ev (PDict body) s = (Inl RequestValidationError, s)) \<and>
   (RegisterUserRequest_validate ev v = Some payload \<and> db s = Some d \<longrightarrow>
      (\<exists>uid s' d' new.
         api_register ev v s = (Inr (PDict [(''user_id'', PStr uid)]), s') \<and>
         uid = str_of_ObjectId (ObjectId (oid_bytes (shd (oids s)))) \<and>
         db s' = Some d' \<and>
         d' ''contact'' = d ''contact'' @ new \<and>
         map doc_fields new = map (contact_record uid) (submitted payload) \<and>
         (\<forall>c \<in> set new. doc_lookup c ''user_id'' = Some (PStr uid))))"
proof (intro conjI impI)
  assume "map_of body ''contacts'' = Some (PList xs) \<and> PDict kvs \<in> set xs \<and> map_of kvs ''user_id'' = None"
  then have "RegisterUserRequest_validate ev (PDict body) = None"
    using validate_rejects_contact by blast
  then show "api_register ev (PDict body) s = (Inl RequestValidationError, s)"
    by (simp add: api_register_def raise_def)
next
  assume a: "RegisterUserRequest_validate ev v = Some payload \<and> db s = Some d"
  define uid where "uid = str_of_ObjectId (ObjectId (oid_bytes (shd (oids s))))"
  define new where "new = contact_docs uid (submitted payload)
                              (stake (length (submitted payload)) (stl (oids s)))"
  from a have d: "db s = Some d" by simp
  from register_user_run[OF d, of payload]
  obtain s' d' where reg: "register_user payload s = (Inr (PDict [(''user_id'', PStr uid)]), s')"
    and db': "db s' = Some d'" and contact': "d' ''contact'' = d ''contact'' @ new"
    unfolding uid_def new_def by auto
  have api: "api_register ev v s = (Inr (PDict [(''user_id'', PStr uid)]), s')"
    using a reg by (simp add: api_register_def)
  have fields: "map doc_fields new = map (contact_record uid) (submitted payload)"
    unfolding new_def by (rule contact_docs_fields) simp
  have ids: "\<forall>c \<in> set new. doc_lookup c ''user_id'' = Some (PStr uid)"
    unfolding new_def using contact_docs_user_id by blast
  show "\<exists>uid s' d' new.
         api_register ev v s = (Inr (PDict [(''user_id'', PStr uid)]), s') \<and>
         uid = str_of_ObjectId (ObjectId (oid_bytes (shd (oids s)))) \<and>
         db s' = Some d' \<and>
         d' ''contact'' = d ''contact'' @ new \<and>
         map doc_fields new = map (contact_record uid) (submitted payload) \<and>
         (\<forall>c \<in> set new. doc_lookup c ''user_id'' = Some (PStr uid))"
    using api db' contact' fields ids uid_def by blast
qed

theorem register_contacts_user_id_witness:
  "api_register any_email
     (PDict [(''name'', PStr ''A''), (''phone'', PStr ''555''),
             (''contacts'', PList [PDict [(''name'', PStr ''B'')]])])
     example_state
   = (Inl RequestValidationError, example_state) \<and>
   (\<exists>s' d' new.
      api_register any_email example_body example_state
        = (Inr (PDict [(''user_id'', PStr ''000000000000000000000010'')]), s') \<and>
      db s' = Some d' \<and> d' ''contact'' = new \<and>
      map doc_fields new =
        [[(''user_id'', PStr ''000000000000000000000010''), (''name'', PStr ''B''),
          (''phone'', PStr ''777''), (''email'', PNone)],
         [(''user_id'', PStr ''000000000000000000000010''), (''name'', PStr ''C''),
          (''phone'', PNone), (''email'', PNone)]])"
proof -
  have c: "map_of [(''name'', PStr ''A''), (''phone'', PStr ''555''),
             (''contacts'', PList [PDict [(''name'', PStr ''B'')]])] ''contacts''
         = Some (PList [PDict [(''name'', PStr ''B'')]]) \<and>
       PDict [(''name'', PStr ''B'')] \<in> set [PDict [(''name'', PStr ''B'')]] \<and>
       map_of [(''name'', PStr ''B'')] ''user_id'' = None"
    by simp
  have v: "RegisterUserRequest_validate any_email example_body = Some example_registration \<and>
           db example_state = Some example_db"
    by (simp add: example_body_valid example_db)
  have sub: "map (contact_record ''000000000000000000000010'') (submitted example_registration)
     = [[(''user_id'', PStr ''000000000000000000000010''), (''name'', PStr ''B''),
          (''phone'', PStr ''777''), (''email'', PNone)],
         [(''user_id'', PStr ''000000000000000000000010''), (''name'', PStr ''C''),
          (''phone'', PNone), (''email'', PNone)]]"
    by (simp add: submitted_def example_registration_def example_contacts_def contact_record_def
          Contact_model_dump_def opt_str_def)
  note rule = register_contacts_user_id[of _ _ _ any_email example_state]
  from rule[THEN conjunct1, rule_format, OF c]
  have 1: "api_register any_email
     (PDict [(''name'', PStr ''A''), (''phone'', PStr ''555''),
             (''contacts'', PList [PDict [(''name'', PStr ''B'')]])])
     example_state = (Inl RequestValidationError, example_state)" .
  from rule[THEN conjunct2, rule_format, OF v]
  obtain uid s' d' new where
      "api_register any_email example_body example_state = (Inr (PDict [(''user_id'', PStr uid)]), s')"
      "uid = ''000000000000000000000010''"
      "db s' = Some d'" "d' ''contact'' = example_db ''contact'' @ new"
      "map doc_fields new = map (contact_record uid) (submitted example_registration)"
    unfolding example_fresh_id by blast
  then have 2: "\<exists>s' d' new.
      api_register any_email example_body example_state
        = (Inr (PDict [(''user_id'', PStr ''000000000000000000000010'')]), s') \<and>
      db s' = Some d' \<and> d' ''contact'' = new \<and>
      map doc_fields new = map (contact_record ''000000000000000000000010'') (submitted example_registration)"
    by (simp add: example_db)
  show ?thesis
    using 1 2 unfolding sub by (rule conjI)
qed

text \<open>
  C9. The declaration of \<^verbatim>\<open>User.pin\<close> describes a 4-6 digit PIN but constrains nothing:
  a registration with the PIN \<^verbatim>\<open>abc\<close> passes validation and is persisted with it.
\<close>

theorem register_accepts_any_pin:
  "RegisterUserRequest_validate ev
     (PDict [(''name'', PStr ''A''), (''phone'', PStr ''555''), (''pin'', PStr ''abc'')])
   = Some \<lparr>user_name = ''A'', user_phone = ''555'', user_email = None,
           user_default_message = default_sos_message, user_pin = Some ''abc'',
           contacts = None\<rparr> \<and>
   (\<exists>s' d'. api_register ev
            (PDict [(''name'', PStr ''A''), (''phone'', PStr ''555''), (''pin'', PStr ''abc'')])
            example_state
          = (Inr (PDict [(''user_id'', PStr ''000000000000000000000010'')]), s') \<and>
         db s' = Some d' \<and>
         d' ''user'' = [user_A, user_B,
            \<lparr>doc_id = ObjectId [0, 0, 0, 0, 0, 0, 0, 0, 0, 0, 0, 16],
             doc_fields = [(''name'', PStr ''A''), (''phone'', PStr ''555''), (''email'', PNone),
                           (''default_message'', PStr default_sos_message),
                           (''pin'', PStr ''abc''), (''contacts'', PNone)]\<rparr>])"
proof -
  let ?body = "PDict [(''name'', PStr ''A''), (''phone'', PStr ''555''), (''pin'', PStr ''abc'')]"
  let ?p = "\<lparr>user_name = ''A'', user_phone = ''555'', user_email = None,
           user_default_message = default_sos_message, user_pin = Some ''abc'',
           contacts = None\<rparr>"
  have v: "RegisterUserRequest_validate ev ?body = Some ?p"
    by (simp add: RegisterUserRequest_validate_def contacts_optional_def
        str_required_def str_default_def str_optional_def email_optional_def)
  from register_user_run[OF example_db(1), of ?p, unfolded example_fresh_id, unfolded example_fresh_oid]
  obtain s' d' where "register_user ?p example_state =
           (Inr (PDict [(''user_id'', PStr ''000000000000000000000010'')]), s')"
     "db s' = Some d'"
     "d' ''user'' = example_db ''user'' @
                            [\<lparr>doc_id = ObjectId [0, 0, 0, 0, 0, 0, 0, 0, 0, 0, 0, 16],
                              doc_fields = RegisterUserRequest_model_dump ?p\<rparr>]"
    by auto
  then show ?thesis
    using v by (simp add: api_register_def example_db RegisterUserRequest_model_dump_def opt_str_def)
qed




end
